theory Spec2Isabelle
  imports Complex_Main "HOL-Library.Char_ord" "HOL-Library.AList"
begin

section \<open>JavaScript values, failures and effects\<close>

text \<open>
  The sources are JavaScript. A value is one of the shapes the parser handles; a
  number is idealised as a real (no theorem below depends on rounding). A thrown
  exception is the left summand of a result, the returned value the right one.
  What a function does besides returning (writing to the console, calling an
  operation's reducer, calling the completion callback) is an event, and an
  effectful function returns the events it caused, oldest first, with its result.
\<close>

datatype jsval = Undefined | Null | Num real | Str string | Arr "jsval list"

datatype error = TypeError | ReferenceError | NullValueError | ExpressionEvaluationError

datatype event = ConsoleLog string | ExecuteCalled string jsval | CallbackCalled jsval

type_synonym 'a outcome = "event list \<times> (error + 'a)"

text \<open>
  \<^verbatim>\<open>for (let x of v)\<close> asks \<open>v\<close> for its iterator: an array yields its elements, a
  string its characters, and \<^verbatim>\<open>undefined\<close>, \<^verbatim>\<open>null\<close> and a number have none, which
  throws a TypeError.
\<close>

fun iterate :: "jsval \<Rightarrow> error + jsval list" where
  "iterate (Arr xs) = Inr xs"
| "iterate (Str s) = Inr (map (\<lambda>c. Str [c]) s)"
| "iterate Undefined = Inl TypeError"
| "iterate Null = Inl TypeError"
| "iterate (Num n) = Inl TypeError"

section \<open>utils.js\<close>

text \<open>
  \<^verbatim>\<open>swapPeriodsAndCommas = (str) => { let result = ''; for (let char of str) { ... } }\<close>

  The loop appends to \<open>result\<close> one character for each character of \<open>str\<close>; the
  function body ends after the loop, without a \<^verbatim>\<open>return\<close>, so the call evaluates to
  \<^verbatim>\<open>undefined\<close>.
\<close>

fun swapLoop :: "string \<Rightarrow> string \<Rightarrow> string" where
  "swapLoop [] result = result"
| "swapLoop (char # str) result =
     (if char = CHR '','' then swapLoop str (result @ ''.'')
      else if char = CHR ''.'' then swapLoop str (result @ '','')
      else swapLoop str (result @ [char]))"

definition swapPeriodsAndCommas :: "string \<Rightarrow> jsval" where
  "swapPeriodsAndCommas str = (let result = swapLoop str '''' in Undefined)"

section \<open>The operation registry\<close>

text \<open>
  \<^verbatim>\<open>class Operation { name; isFunction; constructor(name, isFunction, executeFunction) {
      this.name = name; this.isFunction = isFunction; this.execute = this.executeFunction; } }\<close>

  The field \<open>execute\<close> holds a function of the operand array, or \<^verbatim>\<open>undefined\<close>
  (\<open>None\<close>). The constructor assigns it from \<^verbatim>\<open>this.executeFunction\<close>, a property the
  object does not have, and not from its parameter \<^verbatim>\<open>executeFunction\<close>: the
  parameter is never read, and the own property \<open>execute\<close> is \<^verbatim>\<open>undefined\<close>.
\<close>

record Operation =
  name :: string
  isFunction :: bool
  execute :: "(jsval \<Rightarrow> error + jsval) option"

definition new_Operation :: "string \<Rightarrow> bool \<Rightarrow> 'f \<Rightarrow> Operation" where
  "new_Operation name' isFunction' executeFunction =
     \<lparr>name = name', isFunction = isFunction', execute = None\<rparr>"

text \<open>
  \<^verbatim>\<open>operation.execute(values)\<close>: calling \<^verbatim>\<open>undefined\<close> throws a TypeError; calling a
  function is recorded as an event.
\<close>

definition callExecute :: "Operation \<Rightarrow> jsval \<Rightarrow> jsval outcome" where
  "callExecute operation values =
     (case execute operation of
        None \<Rightarrow> ([], Inl TypeError)
      | Some f \<Rightarrow> ([ExecuteCalled (name operation) values], f values))"

text \<open>
  \<^verbatim>\<open>Array.prototype.reduce\<close> without an initial value throws a TypeError on an empty
  array and otherwise folds from the left, starting with the first element.
  \<^verbatim>\<open>Array.prototype.forEach\<close> calls its callback with each element and its index,
  drops what the callback returns and itself returns \<^verbatim>\<open>undefined\<close>.
\<close>

fun reduce :: "('a \<Rightarrow> 'a \<Rightarrow> 'a) \<Rightarrow> 'a list \<Rightarrow> error + 'a" where
  "reduce callback [] = Inl TypeError"
| "reduce callback (x # xs) = Inr (foldl callback x xs)"

definition forEach :: "('a \<Rightarrow> nat \<Rightarrow> 'b) \<Rightarrow> 'a list \<Rightarrow> jsval" where
  "forEach callback xs =
     (let returned = map (\<lambda>(x, i). callback x i) (zip xs [0..<length xs]) in Undefined)"

text \<open>
  The five arrow functions that \<^verbatim>\<open>_initializeOperations\<close> passes to the constructor,
  on arrays of numbers. The fourth calls \<^verbatim>\<open>forEach\<close> where the first three call
  \<^verbatim>\<open>reduce\<close>; the fifth calls \<^verbatim>\<open>values.forEeach\<close>, which no array has, so the call
  throws a TypeError before its callback is applied to anything.
\<close>

definition plusExecute :: "real list \<Rightarrow> error + jsval" where
  "plusExecute values = map_sum id Num (reduce (\<lambda>total v. total + v) values)"

definition minusExecute :: "real list \<Rightarrow> error + jsval" where
  "minusExecute values = map_sum id Num (reduce (\<lambda>total v. total - v) values)"

definition multiExecute :: "real list \<Rightarrow> error + jsval" where
  "multiExecute values = map_sum id Num (reduce (\<lambda>product factor. product * factor) values)"

definition diviExecute :: "real list \<Rightarrow> error + jsval" where
  "diviExecute values = Inr (forEach (\<lambda>quotient divisor. quotient / real divisor) values)"

definition moduloExecute :: "real list \<Rightarrow> error + jsval" where
  "moduloExecute values = Inl TypeError"

text \<open>
  The field \<^verbatim>\<open>operations\<close> of the component: \<^verbatim>\<open>undefined\<close> until
  \<^verbatim>\<open>connectedCallback\<close> runs, then the plain object that \<^verbatim>\<open>_initializeOperations\<close>
  fills (its keys in insertion order, an assignment to a key inserting or
  overwriting). \<^verbatim>\<open>for (let operation of this.operations)\<close> needs an iterable: it
  runs over an array, and throws a TypeError on a plain object and on
  \<^verbatim>\<open>undefined\<close>. The component never stores an array in the field; the third
  shape is there so that the body of that loop, and the branches of the tokenizer
  behind it, have an input on which they run.
\<close>

datatype registry = Unset | PlainObject "(string \<times> Operation) list" | ArrayOf "Operation list"

fun iterateOperations :: "registry \<Rightarrow> error + Operation list" where
  "iterateOperations (ArrayOf ops) = Inr ops"
| "iterateOperations (PlainObject props) = Inl TypeError"
| "iterateOperations Unset = Inl TypeError"

definition initializeOperations :: registry where
  "initializeOperations =
     (let operations = [];
          PLUS = ''+'';
          operations = AList.update PLUS (new_Operation PLUS False plusExecute) operations;
          MINUS = ''-'';
          operations = AList.update MINUS (new_Operation MINUS False minusExecute) operations;
          MULTI = ''*'';
          operations = AList.update MULTI (new_Operation MULTI False multiExecute) operations;
          DIVI = ''/'';
          operations = AList.update DIVI (new_Operation DIVI False diviExecute) operations;
          MODULO = ''%'';
          operations = AList.update MODULO (new_Operation DIVI False moduloExecute) operations
      in PlainObject operations)"

text \<open>Reading a property of the registry object: \<^verbatim>\<open>operations[key]\<close>.\<close>

fun getOperation :: "registry \<Rightarrow> string \<Rightarrow> Operation option" where
  "getOperation (PlainObject props) key = map_of props key"
| "getOperation (ArrayOf ops) key = None"
| "getOperation Unset key = None"

text \<open>
  \<^verbatim>\<open>_isOperation(str) { for (let operation of this.operations) {
      if (str === operation.name && operation.isFunction) { return true; } } return false; }\<close>
\<close>

fun isOperationLoop :: "Operation list \<Rightarrow> string \<Rightarrow> bool" where
  "isOperationLoop [] str = False"
| "isOperationLoop (operation # rest) str =
     (if str = name operation \<and> isFunction operation then True
      else isOperationLoop rest str)"

definition isOperation :: "registry \<Rightarrow> string \<Rightarrow> error + bool" where
  "isOperation operations str =
     (case iterateOperations operations of
        Inl e \<Rightarrow> Inl e
      | Inr ops \<Rightarrow> Inr (isOperationLoop ops str))"

section \<open>The tokenizer\<close>

text \<open>
  The character tests. \<^verbatim>\<open>/\d/.test(str)\<close> and \<^verbatim>\<open>/[a-zA-z]/.test(str)\<close> hold when some
  character of \<open>str\<close> is in the class; the second class runs from \<^verbatim>\<open>A\<close> to lower-case
  \<^verbatim>\<open>z\<close>, as written. The other tests compare the whole string.
\<close>

definition isNumber :: "string \<Rightarrow> bool" where
  "isNumber str = list_ex (\<lambda>c. CHR ''0'' \<le> c \<and> c \<le> CHR ''9'') str"

definition isLetter :: "string \<Rightarrow> bool" where
  "isLetter str =
     list_ex (\<lambda>c. (CHR ''a'' \<le> c \<and> c \<le> CHR ''z'') \<or> (CHR ''A'' \<le> c \<and> c \<le> CHR ''z'')) str"

definition isDecimalPoint :: "string \<Rightarrow> bool" where
  "isDecimalPoint str = (str = ''.'')"

definition isComma :: "string \<Rightarrow> bool" where
  "isComma str = (str = '','')"

definition isLeftParen :: "string \<Rightarrow> bool" where
  "isLeftParen str = (str = ''('')"

definition isRightParen :: "string \<Rightarrow> bool" where
  "isRightParen str = (str = '')'')"

text \<open>
  \<^verbatim>\<open>tokenizeExpression(expression)\<close>: the loop over the characters, with the local
  variables \<open>tokens\<close>, \<open>currentToken\<close> and \<open>previousChar\<close> as arguments. A comma
  \<^verbatim>\<open>continue\<close>s, so it does not become the previous character. The operator test
  is the fifth of the chain, \<^verbatim>\<open>_isLeftParen\<close> the sixth, and the last branch writes
  to the console; \<^verbatim>\<open>_isRightParen\<close> is not called. After the loop \<open>tokens\<close> is
  returned as it stands.
\<close>

fun tokenizeLoop ::
  "registry \<Rightarrow> string \<Rightarrow> string list \<Rightarrow> string \<Rightarrow> string \<Rightarrow> event list \<Rightarrow> string list outcome"
where
  "tokenizeLoop operations [] tokens currentToken previousChar console = (console, Inr tokens)"
| "tokenizeLoop operations (c # rest) tokens currentToken previousChar console =
     (let char = [c] in
      if isNumber char then
        (if \<not> isNumber previousChar \<and> \<not> isDecimalPoint previousChar \<and> currentToken \<noteq> ''''
         then tokenizeLoop operations rest (tokens @ [currentToken]) ('''' @ char) char console
         else tokenizeLoop operations rest tokens (currentToken @ char) char console)
      else if isLetter char then
        (if \<not> isLetter previousChar \<and> currentToken \<noteq> ''''
         then tokenizeLoop operations rest (tokens @ [currentToken]) ('''' @ char) char console
         else tokenizeLoop operations rest tokens (currentToken @ char) char console)
      else if isComma char then
        tokenizeLoop operations rest tokens currentToken previousChar console
      else if isDecimalPoint char then
        tokenizeLoop operations rest tokens (currentToken @ char) char console
      else
        (case isOperation operations char of
           Inl e \<Rightarrow> (console, Inl e)
         | Inr True \<Rightarrow>
             (if currentToken \<noteq> ''''
              then tokenizeLoop operations rest (tokens @ [currentToken] @ [char]) '''' char console
              else tokenizeLoop operations rest (tokens @ [char]) currentToken char console)
         | Inr False \<Rightarrow>
             (if isLeftParen char then
                (if currentToken \<noteq> ''''
                 then tokenizeLoop operations rest (tokens @ [currentToken] @ [char]) '''' char console
                 else tokenizeLoop operations rest (tokens @ [char]) currentToken char console)
              else
                tokenizeLoop operations rest tokens currentToken char
                  (console @ [ConsoleLog (''Unexpected character in expression: '' @ char)]))))"

definition tokenizeExpression :: "registry \<Rightarrow> string \<Rightarrow> string list outcome" where
  "tokenizeExpression operations expression = tokenizeLoop operations expression [] '''' '''' []"

section \<open>The component\<close>

text \<open>
  \<^verbatim>\<open>String.prototype.replaceAll\<close> with a one-character pattern. A replacement that is
  left out is \<^verbatim>\<open>undefined\<close>, which is converted to the string \<^verbatim>\<open>undefined\<close>.
\<close>

definition replaceAll :: "char \<Rightarrow> string \<Rightarrow> string \<Rightarrow> string" where
  "replaceAll pattern replacement str =
     concat (map (\<lambda>c. if c = pattern then replacement else [c]) str)"

text \<open>
  \<^verbatim>\<open>if (!expression instanceof String) { throw new ExpressionEvaluationError(...) }\<close>
  negates first: the left operand of \<^verbatim>\<open>instanceof\<close> is the boolean \<^verbatim>\<open>!expression\<close>, and a
  boolean is an instance of nothing.
\<close>

definition booleanInstanceofString :: "bool \<Rightarrow> bool" where
  "booleanInstanceofString b = False"

text \<open>
  \<^verbatim>\<open>_preprocessExpression(expression)\<close>, with \<^verbatim>\<open>this._internationalFormat\<close> as first
  argument. The last call is \<^verbatim>\<open>replaceAll('\n',)\<close>, with no replacement. Reading
  \<^verbatim>\<open>replaceAll\<close> from \<^verbatim>\<open>undefined\<close> throws a TypeError, as does calling it on a value
  that is not a string.
\<close>

definition preprocessExpression :: "bool \<Rightarrow> string \<Rightarrow> error + string" where
  "preprocessExpression internationalFormat' expression' =
     (if booleanInstanceofString (expression' = '''') then Inl ExpressionEvaluationError
      else
        (let expression'' =
               (if internationalFormat' then swapPeriodsAndCommas expression' else Str expression')
         in case expression'' of
              Str s \<Rightarrow>
                Inr (replaceAll (CHR 0x0A) ''undefined''
                      (replaceAll (CHR 0x09) '''' (replaceAll (CHR '' '') '''' s)))
            | Undefined \<Rightarrow> Inl TypeError
            | Null \<Rightarrow> Inl TypeError
            | Num n \<Rightarrow> Inl TypeError
            | Arr xs \<Rightarrow> Inl TypeError))"

text \<open>
  The fields of the component that \<^verbatim>\<open>calculate\<close> and \<^verbatim>\<open>connectedCallback\<close> assign;
  \<open>None\<close> is \<^verbatim>\<open>undefined\<close>. The callback is kept as the caller gave it.
\<close>

record 'c XParser =
  expression :: "string option"
  variableMap :: "(string \<times> jsval) list option"
  callback :: "'c option"
  operations :: registry
  tokens :: "string list option"
  internationalFormat :: bool

definition connectedCallback :: "'c XParser \<Rightarrow> 'c XParser" where
  "connectedCallback this = this\<lparr>operations := initializeOperations\<rparr>"

text \<open>
  \<^verbatim>\<open>calculate(expression, variableMap=None, callback, internationalFormat=false)\<close>
  returns the component as the call leaves it, the events of the call and its
  result. An argument \<open>variableMap\<close> that is \<^verbatim>\<open>undefined\<close> (\<open>None\<close>) evaluates the
  default \<^verbatim>\<open>None\<close>, a name that is not declared, before the body runs. The body
  assigns four fields and then calls \<^verbatim>\<open>this._tokenizeExpression\<close>; the class defines
  \<^verbatim>\<open>tokenizeExpression\<close>, and no method of that other name, so this call throws a
  TypeError. The body has no other statement: the callback is stored, and
  nothing calls it.
\<close>

definition calculate ::
  "'c XParser \<Rightarrow> string \<Rightarrow> (string \<times> jsval) list option \<Rightarrow> 'c \<Rightarrow> bool
     \<Rightarrow> 'c XParser \<times> jsval outcome"
where
  "calculate this expression' variableMap' callback' internationalFormat' =
     (case variableMap' of
        None \<Rightarrow> (this, [], Inl ReferenceError)
      | Some vm \<Rightarrow>
          (let this1 = this\<lparr>internationalFormat := internationalFormat'\<rparr> in
           case preprocessExpression (internationalFormat this1) expression' of
             Inl e \<Rightarrow> (this1, [], Inl e)
           | Inr preprocessed \<Rightarrow>
               (let this2 = this1\<lparr>expression := Some preprocessed,
                                   variableMap := Some vm,
                                   callback := Some callback'\<rparr>
                in (this2, [], Inl TypeError))))"

section \<open>The tree\<close>

text \<open>
  \<^verbatim>\<open>class Value { isVariable; value; }\<close>, and the item of a node: an Operation, a
  Value, or any other value.
\<close>

record Value =
  isVariable :: bool
  "value" :: jsval

datatype item = OperationItem Operation | ValueItem Value | OtherItem jsval

fun instanceofValue :: "item \<Rightarrow> bool" where
  "instanceofValue (ValueItem v) = True"
| "instanceofValue (OperationItem operation) = False"
| "instanceofValue (OtherItem x) = False"

fun instanceofOperation :: "item \<Rightarrow> bool" where
  "instanceofOperation (OperationItem operation) = True"
| "instanceofOperation (ValueItem v) = False"
| "instanceofOperation (OtherItem x) = False"

text \<open>
  A node refers to its parent and its children, and a child to its parent, so nodes
  live in a store and are named by their address: \<open>parent\<close> is an address or
  \<^verbatim>\<open>null\<close> (\<open>None\<close>), \<open>children\<close> a list of addresses. The field \<^verbatim>\<open>result\<close> is never
  assigned and stays \<^verbatim>\<open>undefined\<close>.
\<close>

type_synonym ref = nat

record Node =
  parent :: "ref option"
  item :: item
  children :: "ref list"
  nullHandlingMode :: string

type_synonym store = "Node list"

definition DROP_NULL :: string where
  "DROP_NULL = ''drop_null''"

definition NULL_AS_ZERO :: string where
  "NULL_AS_ZERO = ''null_as_zero''"

definition THROW_ERROR_ON_NULL :: string where
  "THROW_ERROR_ON_NULL = ''throw_error''"

text \<open>
  \<^verbatim>\<open>JSON.stringify(this)\<close> walks the object: the fields of a node in the order
  \<open>parent\<close>, \<open>item\<close>, \<open>children\<close>, and for a node it reaches, that node's fields in
  turn. It keeps the stack of the objects it is inside of, and throws a TypeError
  when it reaches an object that is on that stack (a circular structure). An item
  refers to no node, so only \<open>parent\<close> and \<open>children\<close> can close a circle. The text
  it returns is used for the message of an exception only and is left out. An
  address beyond the end of the store names no object, and the walk does not
  follow it.
\<close>

definition references :: "Node \<Rightarrow> ref list" where
  "references node = (case parent node of None \<Rightarrow> [] | Some p \<Rightarrow> [p]) @ children node"

lemma unvisited_decreases:
  fixes h :: store
  assumes "r \<notin> set stack" "\<not> length h \<le> r"
  shows "card ({..<length h} - set (r # stack)) < card ({..<length h} - set stack)"
proof -
  have "r \<in> {..<length h} - set stack"
    using assms by simp
  moreover have "{..<length h} - set (r # stack) = ({..<length h} - set stack) - {r}"
    by auto
  moreover have "finite ({..<length h} - set stack)"
    by simp
  ultimately show ?thesis
    by (simp add: card_Diff1_less del: card_Diff_insert)
qed

function circular :: "store \<Rightarrow> ref list \<Rightarrow> ref \<Rightarrow> bool" where
  "circular h stack r =
     (if r \<in> set stack then True
      else if length h \<le> r then False
      else list_ex (circular h (r # stack)) (references (h ! r)))"
  by pat_completeness auto
termination
  apply (relation "measure (\<lambda>(h, stack, r). card ({..<length h} - set stack))")
   apply (rule wf_measure)
  apply (simp only: in_measure prod.case)
  apply (rule unvisited_decreases; assumption)
  done

declare circular.simps [simp del]

definition JSON_stringify :: "store \<Rightarrow> ref \<Rightarrow> error + unit" where
  "JSON_stringify h r = (if circular h [] r then Inl TypeError else Inr ())"

text \<open>
  \<^verbatim>\<open>validateValues(values)\<close> of the node at address \<open>this\<close>. The loop body is one
  \<^verbatim>\<open>if (value === null) { ... }\<close> followed by \<^verbatim>\<open>validatedValues.push(value)\<close>: of the
  four branches for a null operand only the second (\<^verbatim>\<open>continue\<close>) and the third
  (\<^verbatim>\<open>throw\<close>) leave the iteration, so after the first and the fourth the operand
  itself is pushed as well. The argument of \<^verbatim>\<open>new NullValueError\<close> is evaluated
  before the exception is made.
\<close>

fun validateLoop ::
  "store \<Rightarrow> ref \<Rightarrow> jsval list \<Rightarrow> jsval list \<Rightarrow> event list \<Rightarrow> jsval list outcome"
where
  "validateLoop h this [] validatedValues console = (console, Inr validatedValues)"
| "validateLoop h this (v # rest) validatedValues console =
     (if v = Null then
        (if nullHandlingMode (h ! this) = NULL_AS_ZERO then
           validateLoop h this rest ((validatedValues @ [Num 0]) @ [v]) console
         else if nullHandlingMode (h ! this) = DROP_NULL then
           validateLoop h this rest validatedValues console
         else if nullHandlingMode (h ! this) = THROW_ERROR_ON_NULL then
           (case JSON_stringify h this of
              Inl e \<Rightarrow> (console, Inl e)
            | Inr json \<Rightarrow> (console, Inl NullValueError))
         else
           validateLoop h this rest ((validatedValues @ [Num 0]) @ [v])
             (console @
               [ConsoleLog (''WARNING: Invalid NullHandlingMode given: '' @
                  nullHandlingMode (h ! this) @ ''. Falling back to NULL_AS_ZERO.'')]))
      else validateLoop h this rest (validatedValues @ [v]) console)"

definition validateValues :: "store \<Rightarrow> ref \<Rightarrow> jsval \<Rightarrow> jsval list outcome" where
  "validateValues h this values =
     (case iterate values of
        Inl e \<Rightarrow> ([], Inl e)
      | Inr vs \<Rightarrow> validateLoop h this vs [] [])"

text \<open>
  \<^verbatim>\<open>_childrenAreAllValuesOrNoChildren()\<close> answers false for a node without children.
  \<^verbatim>\<open>_getValuesOfChildren()\<close> collects the items of the children that are Values in
  a local array and ends without returning it.
\<close>

definition childrenAreAllValuesOrNoChildren :: "store \<Rightarrow> ref \<Rightarrow> bool" where
  "childrenAreAllValuesOrNoChildren h this =
     (if length (children (h ! this)) = 0 then False
      else list_all (\<lambda>child. instanceofValue (item (h ! child))) (children (h ! this)))"

definition getValuesOfChildren :: "store \<Rightarrow> ref \<Rightarrow> jsval" where
  "getValuesOfChildren h this =
     (let values = map (\<lambda>child. item (h ! child))
                     (filter (\<lambda>child. instanceofValue (item (h ! child))) (children (h ! this)))
      in Undefined)"

text \<open>
  \<^verbatim>\<open>this.item.execute(values)\<close>: only an Operation has a property \<open>execute\<close>.
\<close>

fun callItemExecute :: "item \<Rightarrow> jsval \<Rightarrow> jsval outcome" where
  "callItemExecute (OperationItem operation) values = callExecute operation values"
| "callItemExecute (ValueItem v) values = ([], Inl TypeError)"
| "callItemExecute (OtherItem x) values = ([], Inl TypeError)"

text \<open>
  The three statements that both branches of \<^verbatim>\<open>Node.execute\<close> share: collect the
  values, validate them, call the item's \<open>execute\<close>. What that call returns is
  dropped.
\<close>

definition executeItem :: "store \<Rightarrow> ref \<Rightarrow> jsval outcome" where
  "executeItem h this =
     (let values = getValuesOfChildren h this in
      case validateValues h this values of
        (console, Inl e) \<Rightarrow> (console, Inl e)
      | (console, Inr validated) \<Rightarrow>
          (case callItemExecute (item (h ! this)) (Arr validated) of
             (events, Inl e) \<Rightarrow> (console @ events, Inl e)
           | (events, Inr returned) \<Rightarrow> (console @ events, Inr Undefined)))"

text \<open>
  \<^verbatim>\<open>for (let child of this.children) { child.execute(); }\<close> with the method as
  argument: the first exception ends the loop.
\<close>

fun forEachChild :: "(ref \<Rightarrow> jsval outcome option) \<Rightarrow> ref list \<Rightarrow> jsval outcome option" where
  "forEachChild method [] = Some ([], Inr Undefined)"
| "forEachChild method (child # rest) =
     (case method child of
        None \<Rightarrow> None
      | Some (events, Inl e) \<Rightarrow> Some (events, Inl e)
      | Some (events, Inr returned) \<Rightarrow>
          (case forEachChild method rest of
             None \<Rightarrow> None
           | Some (events', r) \<Rightarrow> Some (events @ events', r)))"

text \<open>
  \<^verbatim>\<open>Node.execute()\<close> of the node at address \<open>this\<close>, named \<open>Node_execute\<close> apart
  from the field \<open>execute\<close> of an Operation. The method calls itself on the
  children, and nothing keeps a store from holding a node below itself, so the
  recursion takes a bound on its depth: \<open>None\<close> when the bound is used up. No path
  through the method has a \<^verbatim>\<open>return\<close> statement: a call that ends returns
  \<^verbatim>\<open>undefined\<close>.
\<close>

primrec Node_execute :: "nat \<Rightarrow> store \<Rightarrow> ref \<Rightarrow> jsval outcome option" where
  "Node_execute 0 h this = None"
| "Node_execute (Suc depth) h this =
     (if childrenAreAllValuesOrNoChildren h this \<and> instanceofOperation (item (h ! this))
      then Some (executeItem h this)
      else
        (case forEachChild (Node_execute depth h) (children (h ! this)) of
           None \<Rightarrow> None
         | Some (events, Inl e) \<Rightarrow> Some (events, Inl e)
         | Some (events, Inr returned) \<Rightarrow>
             (if childrenAreAllValuesOrNoChildren h this
              then (case executeItem h this of (events', r) \<Rightarrow> Some (events @ events', r))
              else Some (events, Inr Undefined))))"

section \<open>Properties of the registry and of the locale helper\<close>

lemma swapLoop_map:
  "swapLoop str result =
     result @ map (\<lambda>c. if c = CHR '','' then CHR ''.'' else if c = CHR ''.'' then CHR '','' else c) str"
  by (induction str arbitrary: result) simp_all

text \<open>
  C9 (the locale helper returns the input with \<^verbatim>\<open>,\<close> and \<^verbatim>\<open>.\<close> swapped): on the input
  \<^verbatim>\<open>1,000.5\<close> the loop builds the swapped string \<^verbatim>\<open>1.000,5\<close>, and
  \<open>swapPeriodsAndCommas\<close> returns \<^verbatim>\<open>undefined\<close>, not that string.
\<close>

theorem swapPeriodsAndCommas_returns_undefined:
  "swapLoop ''1,000.5'' '''' = ''1.000,5'' \<and>
   swapPeriodsAndCommas ''1,000.5'' = Undefined \<and>
   swapPeriodsAndCommas ''1,000.5'' \<noteq> Str ''1.000,5''"
  by (simp add: swapPeriodsAndCommas_def)

lemma reduce_two_or_more:
  "reduce f (x # y # rest) = Inr (foldl f (f x y) rest)"
  by simp

lemma new_Operation_execute: "execute (new_Operation n f executeFunction) = None"
  by (simp add: new_Operation_def)

lemma plusExecute_reduces: "plusExecute (x # y # rest) = Inr (Num (foldl (+) (x + y) rest))"
  by (simp add: plusExecute_def)

lemma minusExecute_reduces: "minusExecute (x # y # rest) = Inr (Num (foldl (-) (x - y) rest))"
  by (simp add: minusExecute_def)

lemma multiExecute_reduces: "multiExecute (x # y # rest) = Inr (Num (foldl (*) (x * y) rest))"
  by (simp add: multiExecute_def)

lemma diviExecute_undefined: "diviExecute operands = Inr Undefined"
  by (simp add: diviExecute_def forEach_def)

lemma initializeOperations_entries:
  "initializeOperations =
     PlainObject
       [(''+'', \<lparr>name = ''+'', isFunction = False, execute = None\<rparr>),
        (''-'', \<lparr>name = ''-'', isFunction = False, execute = None\<rparr>),
        (''*'', \<lparr>name = ''*'', isFunction = False, execute = None\<rparr>),
        (''/'', \<lparr>name = ''/'', isFunction = False, execute = None\<rparr>),
        (''%'', \<lparr>name = ''/'', isFunction = False, execute = None\<rparr>)]"
  by (simp add: initializeOperations_def new_Operation_def Let_def)

text \<open>
  C2 (each of \<^verbatim>\<open>+ - * / %\<close> is registered under its own name with a reducer that
  folds from the left): the entry under the key \<^verbatim>\<open>%\<close> has the name \<^verbatim>\<open>/\<close>; the
  entry under \<^verbatim>\<open>+\<close> has no \<open>execute\<close> function, so calling it on the operands 1
  and 2 throws a TypeError instead of returning 3; the function written for \<^verbatim>\<open>/\<close>
  returns \<^verbatim>\<open>undefined\<close> on 8 and 2, and the one written for \<^verbatim>\<open>%\<close> throws on 8 and 3.
\<close>

theorem initializeOperations_modulo_name_and_execute:
  "map_option name (getOperation initializeOperations ''%'') = Some ''/'' \<and>
   map_option execute (getOperation initializeOperations ''+'') = Some None \<and>
   map_option (\<lambda>operation. callExecute operation (Arr [Num 1, Num 2]))
     (getOperation initializeOperations ''+'') = Some ([], Inl TypeError) \<and>
   diviExecute [8, 2] = Inr Undefined \<and>
   moduloExecute [8, 3] = Inl TypeError"
  by (simp add: initializeOperations_entries callExecute_def diviExecute_def forEach_def
        moduloExecute_def)

lemma isOperationLoop_iff:
  "isOperationLoop ops str = list_ex (\<lambda>operation. str = name operation \<and> isFunction operation) ops"
  by (induction ops) auto

lemma isOperation_error: "isOperation reg str = Inl e \<Longrightarrow> e = TypeError"
  by (cases reg) (simp_all add: isOperation_def)

lemma isOperation_ArrayOf: "isOperation (ArrayOf ops) str = Inr (isOperationLoop ops str)"
  by (simp add: isOperation_def)

lemma isOperation_PlainObject: "isOperation (PlainObject props) str = Inl TypeError"
  by (simp add: isOperation_def)

text \<open>
  C8 (the operator test is true exactly for the name of a registered operation that
  is not a function): with the registry as \<^verbatim>\<open>_initializeOperations\<close> leaves it, the
  test of \<^verbatim>\<open>+\<close> throws a TypeError, the registry being a plain object; and run
  over an array of operations, the loop answers false for the registered
  non-function \<^verbatim>\<open>+\<close> and true for a registered function \<^verbatim>\<open>A\<close>.
\<close>

theorem isOperation_registered_symbol:
  "isOperation initializeOperations ''+'' = Inl TypeError \<and>
   isOperation (ArrayOf [new_Operation ''+'' False plusExecute]) ''+'' = Inr False \<and>
   isOperation (ArrayOf [new_Operation ''A'' True plusExecute]) ''A'' = Inr True"
  by (simp add: initializeOperations_entries isOperation_def new_Operation_def)

section \<open>Properties of the tokenizer\<close>


lemma tokenizeLoop_iterable_console:
  "fst (tokenizeLoop (ArrayOf ops) cs toks cur prev con) =
     con @ map (\<lambda>c. ConsoleLog (''Unexpected character in expression: '' @ [c]))
        (filter (\<lambda>c. \<not> isNumber [c] \<and> \<not> isLetter [c] \<and> \<not> isComma [c] \<and>
                      \<not> isDecimalPoint [c] \<and> \<not> isOperationLoop ops [c] \<and> \<not> isLeftParen [c]) cs)"
  by (induction cs arbitrary: toks cur prev con)
     (simp_all add: Let_def isOperation_ArrayOf split: bool.splits)

lemma tokenizeLoop_iterable_returns:
  "\<exists>toks'. snd (tokenizeLoop (ArrayOf ops) cs toks cur prev con) = Inr toks'"
  by (induction cs arbitrary: toks cur prev con)
     (simp_all add: Let_def isOperation_ArrayOf split: bool.splits)

lemma tokenizeLoop_error:
  "tokenizeLoop reg cs toks cur prev con = (con', Inl e) \<Longrightarrow> e = TypeError"
  by (induction cs arbitrary: toks cur prev con)
     (auto simp: Let_def split: if_splits sum.splits bool.splits dest: isOperation_error)

text \<open>
  C3 (a right parenthesis becomes a token, after the pending run is flushed, as a
  left parenthesis does): with the registry as \<^verbatim>\<open>_initializeOperations\<close> leaves it,
  the input \<^verbatim>\<open>1)\<close> ends in a TypeError, thrown by the operator test on \<^verbatim>\<open>)\<close>; with an
  array of operations as registry, the input \<^verbatim>\<open>(1)\<close> gives the one token \<^verbatim>\<open>(\<close>: the
  right parenthesis is written to the console as an unexpected character, it is
  not a token, and the pending run \<^verbatim>\<open>1\<close> is not flushed.
\<close>

theorem tokenizeExpression_right_paren:
  "tokenizeExpression initializeOperations ''1)'' = ([], Inl TypeError) \<and>
   tokenizeExpression (ArrayOf [new_Operation ''+'' False plusExecute]) ''(1)'' =
     ([ConsoleLog ''Unexpected character in expression: )''], Inr [''(''])"
  by (simp add: tokenizeExpression_def initializeOperations_entries isOperation_def
        new_Operation_def isNumber_def isLetter_def isComma_def isDecimalPoint_def
        isLeftParen_def)






section \<open>Properties of operand validation\<close>

lemma validateLoop_null_as_zero:
  "nullHandlingMode (h ! this) = NULL_AS_ZERO \<Longrightarrow>
   validateLoop h this vs acc con =
     (con, Inr (acc @ concat (map (\<lambda>v. if v = Null then [Num 0, Null] else [v]) vs)))"
  by (induction vs arbitrary: acc) simp_all

lemma validateLoop_unrecognized:
  "nullHandlingMode (h ! this) \<noteq> NULL_AS_ZERO \<Longrightarrow>
   nullHandlingMode (h ! this) \<noteq> DROP_NULL \<Longrightarrow>
   nullHandlingMode (h ! this) \<noteq> THROW_ERROR_ON_NULL \<Longrightarrow>
   snd (validateLoop h this vs acc con) =
     Inr (acc @ concat (map (\<lambda>v. if v = Null then [Num 0, Null] else [v]) vs))"
  by (induction vs arbitrary: acc con) simp_all

lemma validateLoop_drop_null:
  "nullHandlingMode (h ! this) = DROP_NULL \<Longrightarrow>
   validateLoop h this vs acc con = (con, Inr (acc @ filter (\<lambda>v. v \<noteq> Null) vs))"
  by (induction vs arbitrary: acc) (simp_all add: DROP_NULL_def NULL_AS_ZERO_def)

lemma validateLoop_no_null:
  "Null \<notin> set vs \<Longrightarrow> validateLoop h this vs acc con = (con, Inr (acc @ vs))"
  by (induction vs arbitrary: acc) auto

lemma validateLoop_throw:
  "nullHandlingMode (h ! this) = THROW_ERROR_ON_NULL \<Longrightarrow> Null \<in> set vs \<Longrightarrow>
   validateLoop h this vs acc con =
     (con, Inl (if circular h [] this then TypeError else NullValueError))"
  by (induction vs arbitrary: acc)
     (auto simp: THROW_ERROR_ON_NULL_def NULL_AS_ZERO_def DROP_NULL_def JSON_stringify_def)

text \<open>
  C6 (under \<^verbatim>\<open>NULL_AS_ZERO\<close> every null operand is replaced by one 0, and the list
  keeps its length): on the operands 2 and null the method returns the three
  values 2, 0 and null.
\<close>

theorem validateValues_null_as_zero_keeps_null:
  "validateValues
     [\<lparr>parent = None, item = OperationItem (new_Operation ''+'' False plusExecute),
       children = [], nullHandlingMode = NULL_AS_ZERO\<rparr>]
     0 (Arr [Num 2, Null]) = ([], Inr [Num 2, Num 0, Null])"
  by (simp add: validateValues_def)

text \<open>
  C7 (validation raises NullValueError exactly when the mode is
  \<^verbatim>\<open>THROW_ERROR_ON_NULL\<close> and an operand is null): a node in that mode with one
  child, whose \<open>parent\<close> is that node, raises a TypeError on the operands 2 and
  null, since \<^verbatim>\<open>JSON.stringify(this)\<close> meets the node again below its child; the same
  node with a child that has no parent raises NullValueError.
\<close>

theorem validateValues_throw_on_linked_node:
  "validateValues
     [\<lparr>parent = None, item = OperationItem (new_Operation ''+'' False plusExecute),
       children = [1], nullHandlingMode = THROW_ERROR_ON_NULL\<rparr>,
      \<lparr>parent = Some 0, item = ValueItem \<lparr>isVariable = True, value = Str ''B''\<rparr>,
       children = [], nullHandlingMode = THROW_ERROR_ON_NULL\<rparr>]
     0 (Arr [Num 2, Null]) = ([], Inl TypeError) \<and>
   validateValues
     [\<lparr>parent = None, item = OperationItem (new_Operation ''+'' False plusExecute),
       children = [1], nullHandlingMode = THROW_ERROR_ON_NULL\<rparr>,
      \<lparr>parent = None, item = ValueItem \<lparr>isVariable = True, value = Str ''B''\<rparr>,
       children = [], nullHandlingMode = THROW_ERROR_ON_NULL\<rparr>]
     0 (Arr [Num 2, Null]) = ([], Inl NullValueError)"
  by (simp add: validateValues_def THROW_ERROR_ON_NULL_def NULL_AS_ZERO_def DROP_NULL_def
        JSON_stringify_def circular.simps references_def)

text \<open>
  C10: a node whose mode is none of the three constants validates every operand
  list without raising, and returns the list that a node in the mode
  \<^verbatim>\<open>NULL_AS_ZERO\<close> returns for the same operands.
\<close>

theorem validateValues_unrecognized_mode:
  assumes "this < length h" and "this' < length h'"
    and "nullHandlingMode (h ! this) \<noteq> DROP_NULL"
    and "nullHandlingMode (h ! this) \<noteq> NULL_AS_ZERO"
    and "nullHandlingMode (h ! this) \<noteq> THROW_ERROR_ON_NULL"
    and "nullHandlingMode (h' ! this') = NULL_AS_ZERO"
  shows "\<exists>console validated.
           validateValues h this (Arr operands) = (console, Inr validated) \<and>
           validateValues h' this' (Arr operands) = ([], Inr validated)"
  using validateLoop_unrecognized [OF assms(4) assms(3) assms(5), of operands "[]" "[]"]
        validateLoop_null_as_zero [OF assms(6), of operands "[]" "[]"]
  by (cases "validateLoop h this operands [] []") (simp add: validateValues_def)

text \<open>
  C10 at a concrete input: a node in the mode \<^verbatim>\<open>strict\<close> and a node in the mode
  \<^verbatim>\<open>NULL_AS_ZERO\<close>, on the operands 2 and null.
\<close>

theorem validateValues_unrecognized_mode_witness:
  "''strict'' \<noteq> DROP_NULL \<and> ''strict'' \<noteq> NULL_AS_ZERO \<and> ''strict'' \<noteq> THROW_ERROR_ON_NULL \<and>
   (\<exists>console validated.
      validateValues
        [\<lparr>parent = None, item = OperationItem (new_Operation ''+'' False plusExecute),
          children = [], nullHandlingMode = ''strict''\<rparr>]
        0 (Arr [Num 2, Null]) = (console, Inr validated) \<and>
      validateValues
        [\<lparr>parent = None, item = OperationItem (new_Operation ''+'' False plusExecute),
          children = [], nullHandlingMode = NULL_AS_ZERO\<rparr>]
        0 (Arr [Num 2, Null]) = ([], Inr validated))"
proof (intro conjI)
  show "\<exists>console validated.
      validateValues
        [\<lparr>parent = None, item = OperationItem (new_Operation ''+'' False plusExecute),
          children = [], nullHandlingMode = ''strict''\<rparr>]
        0 (Arr [Num 2, Null]) = (console, Inr validated) \<and>
      validateValues
        [\<lparr>parent = None, item = OperationItem (new_Operation ''+'' False plusExecute),
          children = [], nullHandlingMode = NULL_AS_ZERO\<rparr>]
        0 (Arr [Num 2, Null]) = ([], Inr validated)"
    by (rule validateValues_unrecognized_mode)
       (simp_all add: DROP_NULL_def NULL_AS_ZERO_def THROW_ERROR_ON_NULL_def)
qed (simp_all add: DROP_NULL_def NULL_AS_ZERO_def THROW_ERROR_ON_NULL_def)

lemma circular_lone_node:
  "this < length h \<Longrightarrow> parent (h ! this) = None \<Longrightarrow> children (h ! this) = [] \<Longrightarrow>
   \<not> circular h [] this"
  by (simp add: circular.simps references_def)

lemma validateValues_raises:
  "(\<exists>e. snd (validateValues h this (Arr vs)) = Inl e) \<longleftrightarrow>
     nullHandlingMode (h ! this) = THROW_ERROR_ON_NULL \<and> Null \<in> set vs"
proof (cases "Null \<in> set vs")
  case False
  then show ?thesis
    by (simp add: validateValues_def validateLoop_no_null)
next
  case True
  consider "nullHandlingMode (h ! this) = NULL_AS_ZERO"
    | "nullHandlingMode (h ! this) = DROP_NULL"
    | "nullHandlingMode (h ! this) = THROW_ERROR_ON_NULL"
    | "nullHandlingMode (h ! this) \<noteq> NULL_AS_ZERO" "nullHandlingMode (h ! this) \<noteq> DROP_NULL"
      "nullHandlingMode (h ! this) \<noteq> THROW_ERROR_ON_NULL"
    by blast
  then show ?thesis
  proof cases
    case 1
    then show ?thesis
      by (simp add: validateValues_def validateLoop_null_as_zero NULL_AS_ZERO_def
            THROW_ERROR_ON_NULL_def)
  next
    case 2
    then show ?thesis
      by (simp add: validateValues_def validateLoop_drop_null DROP_NULL_def
            THROW_ERROR_ON_NULL_def)
  next
    case 3
    with True show ?thesis
      by (simp add: validateValues_def validateLoop_throw)
  next
    case 4
    then show ?thesis
      by (simp add: validateValues_def validateLoop_unrecognized)
  qed
qed

lemma validateValues_NullValueError:
  "snd (validateValues h this (Arr vs)) = Inl NullValueError \<longleftrightarrow>
     nullHandlingMode (h ! this) = THROW_ERROR_ON_NULL \<and> Null \<in> set vs \<and> \<not> circular h [] this"
proof (cases "nullHandlingMode (h ! this) = THROW_ERROR_ON_NULL \<and> Null \<in> set vs")
  case True
  then show ?thesis
    by (simp add: validateValues_def validateLoop_throw)
next
  case False
  with validateValues_raises [of h this vs] show ?thesis
    by auto
qed

section \<open>Properties of evaluation\<close>

text \<open>
  C5, as stated (a tree of one leaf whose item is a Value evaluates to the value of
  that leaf), fails: for the leaf with the literal 5, \<open>Node_execute\<close> returns
  \<^verbatim>\<open>undefined\<close>, not 5.
\<close>

theorem Node_execute_leaf_counterexample:
  "Node_execute (Suc 0)
     [\<lparr>parent = None, item = ValueItem \<lparr>isVariable = False, value = Num 5\<rparr>,
       children = [], nullHandlingMode = NULL_AS_ZERO\<rparr>] 0 = Some ([], Inr Undefined) \<and>
   Node_execute (Suc 0)
     [\<lparr>parent = None, item = ValueItem \<lparr>isVariable = False, value = Num 5\<rparr>,
       children = [], nullHandlingMode = NULL_AS_ZERO\<rparr>] 0 \<noteq> Some ([], Inr (Num 5))"
  by (simp add: childrenAreAllValuesOrNoChildren_def)

text \<open>
  C5, amended: for a node without children whose item is a Value, \<open>Node_execute\<close>
  ends, at every depth bound of at least one, without an event (it calls no
  Operation's \<open>execute\<close>) and returns \<^verbatim>\<open>undefined\<close>.
\<close>

theorem Node_execute_leaf:
  assumes "this < length h"
    and "item (h ! this) = ValueItem v"
    and "children (h ! this) = []"
  shows "Node_execute (Suc depth) h this = Some ([], Inr Undefined)"
  using assms by (simp add: childrenAreAllValuesOrNoChildren_def)

text \<open>
  C5, amended, at a concrete input: the leaf that holds the variable \<^verbatim>\<open>A\<close>, with
  the depth bound 4.
\<close>

theorem Node_execute_leaf_witness:
  "instanceofValue
     (item ([\<lparr>parent = None, item = ValueItem \<lparr>isVariable = True, value = Str ''A''\<rparr>,
              children = [], nullHandlingMode = NULL_AS_ZERO\<rparr>] ! 0)) \<and>
   Node_execute (Suc 3)
     [\<lparr>parent = None, item = ValueItem \<lparr>isVariable = True, value = Str ''A''\<rparr>,
       children = [], nullHandlingMode = NULL_AS_ZERO\<rparr>] 0 = Some ([], Inr Undefined)"
proof
  show "Node_execute (Suc 3)
     [\<lparr>parent = None, item = ValueItem \<lparr>isVariable = True, value = Str ''A''\<rparr>,
       children = [], nullHandlingMode = NULL_AS_ZERO\<rparr>] 0 = Some ([], Inr Undefined)"
    by (rule Node_execute_leaf [where v = "\<lparr>isVariable = True, value = Str ''A''\<rparr>"]) simp_all
qed simp

section \<open>Properties of the component\<close>

lemma preprocessExpression_plain:
  "preprocessExpression False e =
     Inr (replaceAll (CHR 0x0A) ''undefined'' (replaceAll (CHR 0x09) '''' (replaceAll (CHR '' '') '''' e)))"
  by (simp add: preprocessExpression_def booleanInstanceofString_def)

lemma preprocessExpression_international:
  "preprocessExpression True e = Inl TypeError"
  by (simp add: preprocessExpression_def booleanInstanceofString_def swapPeriodsAndCommas_def)

text \<open>
  C1, as stated (\<open>calculate\<close> computes the arithmetic result and delivers it, or a
  failure, to the callback), fails: on \<^verbatim>\<open>2+3*4\<close>, with an empty variable map, the
  call ends in a TypeError and has no event, so the callback is called neither
  with 14 nor with anything else.
\<close>

theorem calculate_delivers_nothing_counterexample:
  "snd (calculate
          (connectedCallback
             \<lparr>expression = None, variableMap = None, callback = None, operations = Unset,
              tokens = None, internationalFormat = False\<rparr>)
          ''2+3*4'' (Some []) () False) = ([], Inl TypeError) \<and>
   CallbackCalled (Num 14) \<notin>
     set (fst (snd (calculate
          (connectedCallback
             \<lparr>expression = None, variableMap = None, callback = None, operations = Unset,
              tokens = None, internationalFormat = False\<rparr>)
          ''2+3*4'' (Some []) () False)))"
  by (simp add: calculate_def preprocessExpression_plain Let_def)

text \<open>
  C1, amended: \<open>calculate\<close> never calls the callback, whatever its arguments, and
  it returns no number: a call ends in an exception or returns \<^verbatim>\<open>undefined\<close>.
  Called with a variable map and the international format off, it stores the
  flag, the expression as \<^verbatim>\<open>_preprocessExpression\<close> returns it, the variable map and
  the callback in the component.
\<close>

theorem calculate_stores_and_never_calls_back:
  "(\<forall>v. CallbackCalled v \<notin> set (fst (snd (calculate this e vm cb intl)))) \<and>
   ((\<exists>err. snd (snd (calculate this e vm cb intl)) = Inl err) \<or>
    snd (snd (calculate this e vm cb intl)) = Inr Undefined) \<and>
   (\<exists>p. preprocessExpression False e = Inr p \<and>
        internationalFormat (fst (calculate this e (Some m) cb False)) = False \<and>
        expression (fst (calculate this e (Some m) cb False)) = Some p \<and>
        variableMap (fst (calculate this e (Some m) cb False)) = Some m \<and>
        callback (fst (calculate this e (Some m) cb False)) = Some cb)"
proof (intro conjI)
  show "\<forall>v. CallbackCalled v \<notin> set (fst (snd (calculate this e vm cb intl)))"
    by (simp add: calculate_def Let_def split: option.split sum.split)
  show "(\<exists>err. snd (snd (calculate this e vm cb intl)) = Inl err) \<or>
    snd (snd (calculate this e vm cb intl)) = Inr Undefined"
    by (simp add: calculate_def Let_def split: option.split sum.split)
  show "\<exists>p. preprocessExpression False e = Inr p \<and>
        internationalFormat (fst (calculate this e (Some m) cb False)) = False \<and>
        expression (fst (calculate this e (Some m) cb False)) = Some p \<and>
        variableMap (fst (calculate this e (Some m) cb False)) = Some m \<and>
        callback (fst (calculate this e (Some m) cb False)) = Some cb"
    by (simp add: calculate_def preprocessExpression_plain Let_def)
qed

end
